theory Spec2Isabelle
  imports Complex_Main "HOL-Library.Sublist" "HOL-Library.AList" "HOL-Library.Option_ord"
begin

section \<open>Python primitives used by the analysis core\<close>

subsection \<open>Strings\<close>

text \<open>
  A Python \<open>str\<close> is modelled as a \<^typ>\<open>string\<close> whose characters are the code points
  below 256 (Latin-1); text with code points beyond that range is outside the model.
  \<open>str.lower()\<close> maps \<open>A\<close>..\<open>Z\<close> and the Latin-1 capitals \<open>0xC0\<close>..\<open>0xDE\<close> (but not the
  multiplication sign \<open>0xD7\<close>) to the code point 32 above and leaves every other code
  point below 256 alone.
\<close>

definition lower_chr :: "char \<Rightarrow> char" where
  "lower_chr c =
     (let n = (of_char c :: nat)
      in if (65 \<le> n \<and> n \<le> 90) \<or> (192 \<le> n \<and> n \<le> 222 \<and> n \<noteq> 215)
         then char_of (n + 32) else c)"

definition lower :: "string \<Rightarrow> string" where
  "lower s = map lower_chr s"

text \<open>Python's \<open>needle in haystack\<close> on strings: a contiguous occurrence.\<close>

fun str_contains :: "string \<Rightarrow> string \<Rightarrow> bool" where
  "str_contains needle [] = (needle = [])"
| "str_contains needle (c # cs) = (prefix needle (c # cs) \<or> str_contains needle cs)"

subsection \<open>Floats\<close>

text \<open>
  A finite Python float is modelled by its exact value, a rational, and every float
  operation rounds the exact result to the nearest binary64 number (53 significant bits,
  ties to even), as IEEE 754 and CPython's \<open>int / int\<close> do. The exponent range is not
  bounded: overflow and subnormal numbers are not modelled, which is exact for the
  quotients and products of list lengths the program computes.
\<close>

fun bit_length :: "nat \<Rightarrow> nat" where
  "bit_length n = (if n = 0 then 0 else Suc (bit_length (n div 2)))"

declare bit_length.simps [simp del]

definition round_half_even :: "rat \<Rightarrow> int" where
  "round_half_even x =
     (let f = \<lfloor>x\<rfloor>; d = x - of_int f
      in if d < 1 / 2 then f
         else if 1 / 2 < d then f + 1
         else if even f then f else f + 1)"

text \<open>The exponent \<open>e\<close> with \<open>2 ^ e \<le> x < 2 ^ (e + 1)\<close>, for \<open>x > 0\<close>.\<close>

definition ilog2 :: "rat \<Rightarrow> int" where
  "ilog2 x =
     (if 1 \<le> x then int (bit_length (nat \<lfloor>x\<rfloor>)) - 1
      else - int (bit_length (nat (\<lceil>1 / x\<rceil> - 1))))"

definition pow2 :: "int \<Rightarrow> rat" where
  "pow2 e = (if 0 \<le> e then 2 ^ nat e else 1 / 2 ^ nat (- e))"

definition binary64 :: "rat \<Rightarrow> rat" where
  "binary64 x =
     (if x = 0 then 0
      else let u = pow2 (ilog2 \<bar>x\<bar> - 52)
           in sgn x * of_int (round_half_even (\<bar>x\<bar> / u)) * u)"

text \<open>
  \<open>a / b\<close> on two Python ints (\<open>b\<close> not zero: the program divides only by the length of
  a non-empty list) and \<open>x * y\<close> on floats.
\<close>

definition int_truediv :: "int \<Rightarrow> int \<Rightarrow> rat" where
  "int_truediv a b = binary64 (of_int a / of_int b)"

definition float_mul :: "rat \<Rightarrow> rat \<Rightarrow> rat" where
  "float_mul x y = binary64 (x * y)"

subsection \<open>\<open>max(iterable, key=...)\<close>\<close>

text \<open>
  CPython's \<open>max\<close> keeps the first item and replaces it only by an item whose key is
  strictly greater, so among items of maximal key the first one met is returned.
\<close>

fun py_max_from :: "('a \<Rightarrow> 'b::linorder) \<Rightarrow> 'a \<Rightarrow> 'a list \<Rightarrow> 'a" where
  "py_max_from key best [] = best"
| "py_max_from key best (x # xs) =
     (if key best < key x then py_max_from key x xs else py_max_from key best xs)"

subsection \<open>Dictionaries\<close>

text \<open>
  A Python dict iterates in insertion order (the language guarantees it from 3.7 on). A
  dict whose iteration order matters is an association list in insertion order with
  distinct keys; \<open>d[k] = v\<close> is \<^const>\<open>AList.update\<close> and \<open>d.get\<close> is \<^const>\<open>map_of\<close>.
  \<open>d[k]\<close> raises \<open>KeyError\<close> on a missing key.
\<close>

datatype py_error = KeyError string

definition getitem :: "(string \<times> 'v) list \<Rightarrow> string \<Rightarrow> py_error + 'v" where
  "getitem d k = (case map_of d k of None \<Rightarrow> Inl (KeyError k) | Some v \<Rightarrow> Inr v)"

subsection \<open>The fragment of \<open>re\<close> the red-flag catalog uses\<close>

text \<open>
  The catalog's patterns are built from literal characters, \<open>.*\<close>, \<open>_+\<close>, negative
  lookahead \<open>(?!...)\<close> and the inline flag \<open>(?i)\<close>. A pattern is kept in parsed form.
  \<open>.\<close> matches every character but the newline; under \<open>(?i)\<close> a literal matches the
  characters of the same lower-case form. \<open>re.search\<close> succeeds when the pattern
  matches at some position of the text; CPython's matcher backtracks over every choice,
  so it finds a match whenever one exists.
\<close>

datatype atom = Chr char | Dot

datatype item = One atom | Star atom | Plus atom | NegAhead "item list"

record regex =
  ignorecase :: bool
  rx_items :: "item list"

fun atom_matches :: "bool \<Rightarrow> atom \<Rightarrow> char \<Rightarrow> bool" where
  "atom_matches ic Dot c = (c \<noteq> CHR 0x0A)"
| "atom_matches ic (Chr p) c = (if ic then lower_chr c = lower_chr p else c = p)"

fun match_here :: "bool \<Rightarrow> item list \<Rightarrow> string \<Rightarrow> bool" where
  "match_here ic [] s = True"
| "match_here ic (One a # r) [] = False"
| "match_here ic (One a # r) (c # cs) = (atom_matches ic a c \<and> match_here ic r cs)"
| "match_here ic (Star a # r) [] = match_here ic r []"
| "match_here ic (Star a # r) (c # cs) =
     (match_here ic r (c # cs) \<or> (atom_matches ic a c \<and> match_here ic (Star a # r) cs))"
| "match_here ic (Plus a # r) [] = False"
| "match_here ic (Plus a # r) (c # cs) =
     (atom_matches ic a c \<and> match_here ic (Star a # r) cs)"
| "match_here ic (NegAhead q # r) s = (\<not> match_here ic q s \<and> match_here ic r s)"

fun search_from :: "bool \<Rightarrow> item list \<Rightarrow> string \<Rightarrow> bool" where
  "search_from ic p [] = match_here ic p []"
| "search_from ic p (c # cs) = (match_here ic p (c # cs) \<or> search_from ic p cs)"

definition re_search :: "regex \<Rightarrow> string \<Rightarrow> bool" where
  "re_search p s = search_from (ignorecase p) (rx_items p) s"

definition lit :: "string \<Rightarrow> item list" where
  "lit s = map (\<lambda>c. One (Chr c)) s"

definition rx :: "item list \<Rightarrow> regex" where
  "rx p = \<lparr>ignorecase = False, rx_items = p\<rparr>"

definition rx_i :: "item list \<Rightarrow> regex" where
  "rx_i p = \<lparr>ignorecase = True, rx_items = p\<rparr>"

section \<open>Document classifier (\<open>_identify_document_type\<close>)\<close>

text \<open>The local dict \<open>patterns\<close>, in its declared order.\<close>

definition type_patterns :: "(string \<times> string list) list" where
  "type_patterns =
     [(''articles_of_association'',
         [''articles of association'', ''company regulations'', ''share capital'',
          ''director powers'']),
      (''board_resolution'',
         [''board resolution'', ''resolved that'', ''directors resolve'',
          ''board of directors'']),
      (''ubo_declaration'',
         [''ultimate beneficial owner'', ''ubo declaration'', ''beneficial ownership'',
          ''25%'']),
      (''employment_contract'',
         [''employment contract'', ''terms of employment'', ''employee'', ''employer'',
          ''salary'']),
      (''incorporation_form'',
         [''incorporation'', ''application for registration'', ''company registration''])]"

text \<open>\<open>sum(1 for keyword in keywords if keyword in text_lower)\<close>\<close>

definition keyword_score :: "string list \<Rightarrow> string \<Rightarrow> int" where
  "keyword_score keywords text_lower =
     int (length (filter (\<lambda>keyword. str_contains keyword text_lower) keywords))"

text \<open>One round of the scoring loop: \<open>if score > 0: scores[doc_type] = score\<close>.\<close>

definition score_step :: "string \<Rightarrow> string \<times> string list \<Rightarrow> (string \<times> int) list
    \<Rightarrow> (string \<times> int) list" where
  "score_step text_lower = (\<lambda>(doc_type, keywords) scores.
     let score = keyword_score keywords text_lower
     in if score > 0 then AList.update doc_type score scores else scores)"

definition score_types :: "(string \<times> string list) list \<Rightarrow> string \<Rightarrow> (string \<times> int) list" where
  "score_types patterns text_lower = fold (score_step text_lower) patterns []"

text \<open>
  \<open>SimpleDocumentParser._identify_document_type\<close> of \<open>app_simple.py\<close>. The guard
  \<open>if scores\<close> and \<open>max(scores, key=scores.get)\<close> over the dict's keys are one case
  distinction on the key list.
\<close>

definition identify_document_type :: "string \<Rightarrow> string" where
  "identify_document_type text_content =
     (let text_lower = lower text_content;
          scores = score_types type_patterns text_lower
      in case map fst scores of
           [] \<Rightarrow> ''unknown''
         | k # ks \<Rightarrow> py_max_from (map_of scores) k ks)"

text \<open>
  \<open>DocumentParser._identify_document_type\<close> of \<open>document_parser.py\<close>: the same body over
  the same table.
\<close>

definition DocumentParser_identify_document_type :: "string \<Rightarrow> string" where
  "DocumentParser_identify_document_type text_content =
     (let text_lower = lower text_content;
          scores = score_types type_patterns text_lower
      in case map fst scores of
           [] \<Rightarrow> ''unknown''
         | k # ks \<Rightarrow> py_max_from (map_of scores) k ks)"

text \<open>The score table: every catalog type with its keyword count, in catalog order.\<close>

definition scored :: "(string \<times> string list) list \<Rightarrow> string \<Rightarrow> (string \<times> int) list" where
  "scored ps low = map (\<lambda>(t, kws). (t, keyword_score kws low)) ps"

section \<open>Red-flag scanner (\<open>SimpleValidator\<close>)\<close>

text \<open>
  A red flag as \<open>validate_document\<close> builds it; \<open>flag_type\<close> is the key \<open>'type'\<close>. Every
  flag and every validation result the validator builds has all of its keys, so the
  defaults of \<open>v.get('red_flags', [])\<close> and \<open>rf.get('severity')\<close> in the compliance
  checker are never taken and the records have plain fields.
\<close>

record red_flag =
  flag_type :: string
  severity :: string
  message :: string
  suggestion :: string

text \<open>One entry of \<open>self.red_flag_patterns\<close>.\<close>

record flag_config =
  patterns :: "regex list"
  rule_severity :: string
  rule_message :: string

record SimpleValidator =
  red_flag_patterns :: "(string \<times> flag_config) list"

text \<open>\<open>SimpleValidator.__init__\<close>\<close>

definition SimpleValidator_init :: SimpleValidator where
  "SimpleValidator_init =
     \<lparr>red_flag_patterns =
        [(''jurisdiction_issues'',
            \<lparr>patterns =
               [rx (lit ''uae federal court''),
                rx (lit ''dubai court''),
                rx (lit ''abu dhabi court'' @ [NegAhead (Star Dot # lit ''global market'')]),
                rx (lit ''federal law''),
                rx (lit ''emirates law'')],
             rule_severity = ''high'',
             rule_message = ''Incorrect jurisdiction - should reference ADGM Courts''\<rparr>),
         (''missing_adgm_reference'',
            \<lparr>patterns =
               [rx_i (lit ''governing law''
                      @ [NegAhead (Star Dot # lit ''adgm''),
                         NegAhead (Star Dot # lit ''abu dhabi global market'')])],
             rule_severity = ''high'',
             rule_message = ''Missing ADGM governing law reference''\<rparr>),
         (''incomplete_signatures'',
            \<lparr>patterns =
               [rx (lit ''signature'' @ [Star Dot] @ lit ''blank''),
                rx (lit ''[signature]''),
                rx (lit ''sign here''),
                rx ([Plus (Chr CHR ''_''), Star Dot] @ lit ''signature'')],
             rule_severity = ''medium'',
             rule_message = ''Incomplete signature sections found''\<rparr>)]\<rparr>"

text \<open>
  The document dict the extraction step hands over. Only the keys the core reads are
  kept; each is read with \<open>.get\<close> and a default, so an absent key is \<open>None\<close>.
\<close>

record doc_info =
  file_name :: "string option"
  text_content :: "string option"
  document_type :: "string option"

record validation =
  document_name :: string
  validated_type :: string
  red_flags :: "red_flag list"
  validation_status :: string

text \<open>\<open>doc.get('document_type', 'unknown')\<close> and \<open>doc_info.get('text_content', '')\<close>\<close>

definition get_document_type :: "doc_info \<Rightarrow> string" where
  "get_document_type doc = (case document_type doc of None \<Rightarrow> ''unknown'' | Some t \<Rightarrow> t)"

definition doc_text :: "doc_info \<Rightarrow> string" where
  "doc_text doc = (case text_content doc of None \<Rightarrow> '''' | Some t \<Rightarrow> t)"

text \<open>The inner loop over one rule's patterns, appending one flag per matching pattern.\<close>

definition scan_rule :: "string \<Rightarrow> string \<times> flag_config \<Rightarrow> red_flag list \<Rightarrow> red_flag list" where
  "scan_rule text_lower = (\<lambda>(flag_type, config) flags.
     fold (\<lambda>pattern flags.
             if re_search pattern text_lower
             then flags @ [\<lparr>flag_type = flag_type,
                            severity = rule_severity config,
                            message = rule_message config,
                            suggestion = ''Review and correct this issue''\<rparr>]
             else flags)
          (patterns config) flags)"

definition validate_document :: "SimpleValidator \<Rightarrow> doc_info \<Rightarrow> validation" where
  "validate_document self doc =
     (let text = doc_text doc;
          text_lower = lower text;
          flags = fold (scan_rule text_lower) (red_flag_patterns self) [];
          flags =
            (if \<not> str_contains ''adgm'' text_lower
                \<and> \<not> str_contains ''abu dhabi global market'' text_lower
             then flags @ [\<lparr>flag_type = ''missing_adgm_reference'',
                            severity = ''high'',
                            message = ''Document does not reference ADGM or Abu Dhabi Global Market'',
                            suggestion = ''Add proper ADGM governing law clause''\<rparr>]
             else flags)
      in \<lparr>document_name = (case file_name doc of None \<Rightarrow> ''Unknown'' | Some n \<Rightarrow> n),
          validated_type = get_document_type doc,
          red_flags = flags,
          validation_status = (if flags \<noteq> [] then ''requires_attention'' else ''compliant'')\<rparr>)"

text \<open>
  Names for the two kinds of flag \<open>validate_document\<close> appends: the flag of a catalog
  rule, and the flag of the standing check for a reference to the regulator.
\<close>

definition rule_flag :: "string \<Rightarrow> flag_config \<Rightarrow> red_flag" where
  "rule_flag ftype config =
     \<lparr>flag_type = ftype, severity = rule_severity config, message = rule_message config,
      suggestion = ''Review and correct this issue''\<rparr>"

definition standing_flag :: red_flag where
  "standing_flag =
     \<lparr>flag_type = ''missing_adgm_reference'', severity = ''high'',
      message = ''Document does not reference ADGM or Abu Dhabi Global Market'',
      suggestion = ''Add proper ADGM governing law clause''\<rparr>"

text \<open>
  The one pattern of the catalog's own rule \<open>missing_adgm_reference\<close>:
  \<open>(?i)governing law(?!.*adgm)(?!.*abu dhabi global market)\<close>.
\<close>

definition governing_law_rule :: regex where
  "governing_law_rule =
     rx_i (lit ''governing law''
           @ [NegAhead (Star Dot # lit ''adgm''),
              NegAhead (Star Dot # lit ''abu dhabi global market'')])"

text \<open>The flags of one rule on a text: one per matching pattern, in pattern order.\<close>

definition rule_matches :: "string \<Rightarrow> string \<times> flag_config \<Rightarrow> red_flag list" where
  "rule_matches text_lower = (\<lambda>(ftype, config).
     map (\<lambda>pattern. rule_flag ftype config)
         (filter (\<lambda>pattern. re_search pattern text_lower) (patterns config)))"

section \<open>Completeness evaluator and status aggregator (\<open>SimpleComplianceChecker\<close>)\<close>

record process_requirement =
  name :: string
  required_docs :: "string list"

record SimpleComplianceChecker =
  process_requirements :: "(string \<times> process_requirement) list"

text \<open>\<open>SimpleComplianceChecker.__init__\<close>\<close>

definition SimpleComplianceChecker_init :: SimpleComplianceChecker where
  "SimpleComplianceChecker_init =
     \<lparr>process_requirements =
        [(''company_incorporation'',
            \<lparr>name = ''Company Incorporation'',
             required_docs =
               [''articles_of_association'', ''board_resolution'', ''incorporation_form'',
                ''ubo_declaration'', ''register_members_directors'']\<rparr>)]\<rparr>"

record completeness_block =
  documents_uploaded :: int
  required_documents :: int
  present_documents :: "string list"
  missing_documents :: "string list"
  completion_percentage :: rat

record issues_block =
  total_red_flags :: int
  high_severity :: int

record compliance_report =
  process_type :: string
  process_name :: string
  overall_status :: string
  completeness :: completeness_block
  issues_summary :: issues_block
  recommendations :: "string list"

text \<open>
  The set \<open>doc_types\<close>: the documents' types without \<open>'unknown'\<close>. A Python set has no
  duplicates and an iteration order that depends on string hashing; the model keeps a
  duplicate-free list, and only its elements, not their order, mean anything.
\<close>

definition observed_types :: "doc_info list \<Rightarrow> string list" where
  "observed_types documents =
     removeAll ''unknown'' (remdups (map get_document_type documents))"

text \<open>The status decision (the \<open>if\<close>/\<open>elif\<close> chain of \<open>generate_compliance_report\<close>).\<close>

definition determine_status :: "rat \<Rightarrow> int \<Rightarrow> string list \<Rightarrow> string" where
  "determine_status completion_pct high_issues missing_docs =
     (if completion_pct < 60 then ''incomplete''
      else if high_issues > 2 then ''major_issues''
      else if high_issues > 0 \<or> missing_docs \<noteq> [] then ''requires_attention''
      else ''ready_for_submission'')"

text \<open>Process selection: the profile is looked up only when a signal type is observed.\<close>

definition select_process :: "SimpleComplianceChecker \<Rightarrow> string list
    \<Rightarrow> py_error + (string \<times> string \<times> string list)" where
  "select_process self doc_types =
     (if list_ex (\<lambda>dtype. dtype \<in> set [''articles_of_association'', ''board_resolution'',
                                           ''ubo_declaration'']) doc_types
      then (case getitem (process_requirements self) ''company_incorporation'' of
              Inl e \<Rightarrow> Inl e
            | Inr req \<Rightarrow>
                Inr (''company_incorporation'', ''Company Incorporation'', required_docs req))
      else Inr (''general_review'', ''General Document Review'', []))"

definition generate_compliance_report :: "SimpleComplianceChecker \<Rightarrow> doc_info list
    \<Rightarrow> validation list \<Rightarrow> py_error + compliance_report" where
  "generate_compliance_report self documents validations =
     (let doc_types = observed_types documents
      in case select_process self doc_types of
           Inl e \<Rightarrow> Inl e
         | Inr (ptype, pname, required) \<Rightarrow>
             (let present_docs =
                    (if required \<noteq> [] then filter (\<lambda>doc. doc \<in> set doc_types) required
                     else doc_types);
                  missing_docs =
                    (if required \<noteq> [] then filter (\<lambda>doc. doc \<notin> set doc_types) required
                     else []);
                  completion_pct =
                    (if required \<noteq> []
                     then float_mul (int_truediv (int (length present_docs))
                                                 (int (length required))) 100
                     else 100);
                  total = sum_list (map (\<lambda>v. int (length (red_flags v))) validations);
                  high_issues =
                    int (length (filter (\<lambda>rf. severity rf = ''high'')
                                        (concat (map red_flags validations))));
                  status = determine_status completion_pct high_issues missing_docs
              in Inr \<lparr>process_type = ptype,
                      process_name = pname,
                      overall_status = status,
                      completeness =
                        \<lparr>documents_uploaded = int (length documents),
                         required_documents = int (length required),
                         present_documents = present_docs,
                         missing_documents = missing_docs,
                         completion_percentage = completion_pct\<rparr>,
                      issues_summary =
                        \<lparr>total_red_flags = total, high_severity = high_issues\<rparr>,
                      recommendations =
                        [''Review flagged issues and make necessary corrections'',
                         ''Ensure all required documents are provided'',
                         ''Verify ADGM compliance before submission'']\<rparr>))"

text \<open>
  Names for the two lists of \<open>SimpleComplianceChecker\<close>: the types whose presence
  selects the incorporation process, and the incorporation profile's requirement list.
\<close>

definition signal_types :: "string list" where
  "signal_types = [''articles_of_association'', ''board_resolution'', ''ubo_declaration'']"

definition incorporation_docs :: "string list" where
  "incorporation_docs =
     [''articles_of_association'', ''board_resolution'', ''incorporation_form'',
      ''ubo_declaration'', ''register_members_directors'']"

text \<open>
  \<open>_generate_status_message\<close> lists \<open>missing[:3]\<close>, the front of the report's
  \<open>missing_documents\<close>.
\<close>

definition shown_missing :: "compliance_report \<Rightarrow> string list" where
  "shown_missing report = take 3 (missing_documents (completeness report))"

section \<open>Properties of the status aggregator\<close>

lemma generate_compliance_report_status:
  assumes "generate_compliance_report self documents validations = Inr r"
  shows "overall_status r =
           determine_status (completion_percentage (completeness r))
             (high_severity (issues_summary r)) (missing_documents (completeness r))"
  using assms
  by (auto simp: generate_compliance_report_def Let_def split: sum.splits prod.splits)

text \<open>
  Claim C1. For every completion percentage \<open>c\<close>, high-severity count \<open>h\<close> and missing list
  \<open>m\<close> (its length is the missing count), the status decision returns exactly one of the
  four statuses, by ordered first-match rules: \<open>c < 60\<close> gives \<open>incomplete\<close>; otherwise
  \<open>h > 2\<close> gives \<open>major_issues\<close>; otherwise \<open>h > 0\<close> or a non-empty missing list gives
  \<open>requires_attention\<close>; otherwise \<open>ready_for_submission\<close>. In particular \<open>c < 60\<close> gives
  \<open>incomplete\<close> whatever \<open>h\<close> is. Every report \<open>generate_compliance_report\<close> returns
  carries the status this decision gives on the report's own completion percentage,
  high-severity count and missing list.
\<close>

theorem status_first_match:
  "determine_status c h m \<in>
      {''incomplete'', ''major_issues'', ''requires_attention'', ''ready_for_submission''}
   \<and> determine_status c h m =
        (if c < 60 then ''incomplete''
         else if h > 2 then ''major_issues''
         else if h > 0 \<or> int (length m) > 0 then ''requires_attention''
         else ''ready_for_submission'')
   \<and> (determine_status c h m = ''incomplete'' \<longleftrightarrow> c < 60)
   \<and> (determine_status c h m = ''major_issues'' \<longleftrightarrow> \<not> c < 60 \<and> h > 2)
   \<and> (determine_status c h m = ''requires_attention'' \<longleftrightarrow>
          \<not> c < 60 \<and> \<not> h > 2 \<and> (h > 0 \<or> int (length m) > 0))
   \<and> (determine_status c h m = ''ready_for_submission'' \<longleftrightarrow>
          \<not> c < 60 \<and> \<not> h > 2 \<and> \<not> (h > 0 \<or> int (length m) > 0))
   \<and> (c < 60 \<longrightarrow> determine_status c h m = ''incomplete'')
   \<and> (generate_compliance_report self documents validations = Inr r \<longrightarrow>
          overall_status r =
            determine_status (completion_percentage (completeness r))
              (high_severity (issues_summary r)) (missing_documents (completeness r)))"
  using generate_compliance_report_status [of self documents validations r]
  by (simp add: determine_status_def)

theorem status_first_match_witness:
  "(40 :: rat) < 60 \<and> determine_status 40 3 [] = ''incomplete''
   \<and> determine_status 40 0 [''incorporation_form''] = ''incomplete''
   \<and> (\<exists>r. generate_compliance_report SimpleComplianceChecker_init [] [] = Inr r
          \<and> overall_status r = ''ready_for_submission'')"
  using status_first_match [of 40 3 "[]"] status_first_match [of 40 0 "[''incorporation_form'']"]
    status_first_match [of 100 0 "[]" SimpleComplianceChecker_init "[]" "[]"]
  by (simp add: generate_compliance_report_def select_process_def observed_types_def
        float_mul_def int_truediv_def Let_def)

section \<open>Properties of the red-flag scanner\<close>

text \<open>
  Claim C6. For every validator and every document record, the result of
  \<open>validate_document\<close> has overall status \<open>requires_attention\<close> if and only if its
  red-flag sequence is non-empty, and \<open>compliant\<close> otherwise.
\<close>

theorem validate_document_status:
  "validation_status (validate_document self doc) =
     (if red_flags (validate_document self doc) \<noteq> [] then ''requires_attention''
      else ''compliant'')
   \<and> (validation_status (validate_document self doc) = ''requires_attention''
        \<longleftrightarrow> red_flags (validate_document self doc) \<noteq> [])"
  by (simp add: validate_document_def Let_def)

subsection \<open>The scan appends to the end, rule by rule\<close>

lemma fold_append_if:
  "fold (\<lambda>p fl. if P p then fl @ [x] else fl) ps flags = flags @ map (\<lambda>p. x) (filter P ps)"
  by (induction ps arbitrary: flags) simp_all

lemma scan_rule_append:
  "scan_rule low rule flags = flags @ rule_matches low rule"
  by (cases rule) (simp add: scan_rule_def rule_matches_def rule_flag_def fold_append_if)

lemma fold_scan_rule:
  "fold (scan_rule low) rules flags = flags @ concat (map (rule_matches low) rules)"
  by (induction rules arbitrary: flags) (simp_all add: scan_rule_append)

lemma red_flags_validate_document:
  "red_flags (validate_document self doc) =
     concat (map (rule_matches (lower (doc_text doc))) (red_flag_patterns self))
     @ (if \<not> str_contains ''adgm'' (lower (doc_text doc))
           \<and> \<not> str_contains ''abu dhabi global market'' (lower (doc_text doc))
        then [standing_flag] else [])"
  by (simp add: validate_document_def Let_def fold_scan_rule standing_flag_def)

text \<open>
  Claim C5. For every validator and document, the red flags of \<open>validate_document\<close> are
  the flags of the catalog's rules in the catalog's declared order, each rule
  contributing one flag per matching pattern in the patterns' declared order (as many
  copies of the rule's flag as patterns match, nothing removed), followed by the
  standing regulator-reference flag when it is emitted.
\<close>

theorem red_flags_in_catalog_order:
  "red_flags (validate_document self doc) =
     concat (map (rule_matches (lower (doc_text doc))) (red_flag_patterns self))
     @ (if \<not> str_contains ''adgm'' (lower (doc_text doc))
           \<and> \<not> str_contains ''abu dhabi global market'' (lower (doc_text doc))
        then [standing_flag] else [])
   \<and> rule_matches low (ftype, config) =
       replicate (length (filter (\<lambda>pattern. re_search pattern low) (patterns config)))
         (rule_flag ftype config)"
  by (simp add: red_flags_validate_document rule_matches_def map_replicate_const)

theorem red_flags_in_catalog_order_witness:
  "red_flags (validate_document SimpleValidator_init
      \<lparr>file_name = Some ''lease.docx'',
       text_content = Some ''Disputes go to the Dubai Court under Federal Law.'',
       document_type = Some ''unknown''\<rparr>)
   = [\<lparr>flag_type = ''jurisdiction_issues'', severity = ''high'',
       message = ''Incorrect jurisdiction - should reference ADGM Courts'',
       suggestion = ''Review and correct this issue''\<rparr>,
      \<lparr>flag_type = ''jurisdiction_issues'', severity = ''high'',
       message = ''Incorrect jurisdiction - should reference ADGM Courts'',
       suggestion = ''Review and correct this issue''\<rparr>,
      \<lparr>flag_type = ''missing_adgm_reference'', severity = ''high'',
       message = ''Document does not reference ADGM or Abu Dhabi Global Market'',
       suggestion = ''Add proper ADGM governing law clause''\<rparr>]"
proof -
  let ?d = "\<lparr>file_name = Some ''lease.docx'',
       text_content = Some ''Disputes go to the Dubai Court under Federal Law.'',
       document_type = Some ''unknown''\<rparr>"
  have "concat (map (rule_matches (lower (doc_text ?d))) (red_flag_patterns SimpleValidator_init))
     @ (if \<not> str_contains ''adgm'' (lower (doc_text ?d))
           \<and> \<not> str_contains ''abu dhabi global market'' (lower (doc_text ?d))
        then [standing_flag] else [])
     = [\<lparr>flag_type = ''jurisdiction_issues'', severity = ''high'',
       message = ''Incorrect jurisdiction - should reference ADGM Courts'',
       suggestion = ''Review and correct this issue''\<rparr>,
      \<lparr>flag_type = ''jurisdiction_issues'', severity = ''high'',
       message = ''Incorrect jurisdiction - should reference ADGM Courts'',
       suggestion = ''Review and correct this issue''\<rparr>,
      \<lparr>flag_type = ''missing_adgm_reference'', severity = ''high'',
       message = ''Document does not reference ADGM or Abu Dhabi Global Market'',
       suggestion = ''Add proper ADGM governing law clause''\<rparr>]"
    by code_simp
  then show ?thesis
    using red_flags_in_catalog_order [of SimpleValidator_init ?d] by simp
qed

subsection \<open>The regulator-reference category\<close>

lemma set_rule_matches:
  "set (rule_matches low (ftype, config)) =
     (if list_ex (\<lambda>p. re_search p low) (patterns config) then {rule_flag ftype config} else {})"
  by (auto simp: rule_matches_def list_ex_iff)

lemma rule_flag_not_standing: "rule_flag ftype config \<noteq> standing_flag"
  by (simp add: rule_flag_def standing_flag_def)

lemma standing_flag_iff:
  "standing_flag \<in> set (red_flags (validate_document self doc)) \<longleftrightarrow>
     \<not> str_contains ''adgm'' (lower (doc_text doc))
     \<and> \<not> str_contains ''abu dhabi global market'' (lower (doc_text doc))"
proof -
  have "standing_flag \<notin> set (concat (map (rule_matches t) rules))" for t rules
    by (induction rules)
       (auto simp: set_rule_matches rule_flag_not_standing [symmetric] split: if_splits)
  then show ?thesis
    by (simp add: red_flags_validate_document)
qed

lemma init_flag_types:
  "set (map flag_type (concat (map (rule_matches low) (red_flag_patterns SimpleValidator_init))))
     \<inter> {''missing_adgm_reference''}
   = (if re_search governing_law_rule low then {''missing_adgm_reference''} else {})"
  by (simp add: SimpleValidator_init_def set_rule_matches rule_flag_def governing_law_rule_def)

lemma init_flags_high:
  "f \<in> set (concat (map (rule_matches t) (red_flag_patterns SimpleValidator_init)))
   \<Longrightarrow> flag_type f = ''missing_adgm_reference'' \<Longrightarrow> severity f = ''high''"
  by (auto simp: SimpleValidator_init_def set_rule_matches rule_flag_def split: if_splits)

lemma init_category_iff:
  "''missing_adgm_reference''
     \<in> set (map flag_type (concat (map (rule_matches t) (red_flag_patterns SimpleValidator_init))))
   \<longleftrightarrow> re_search governing_law_rule t"
  using init_flag_types [of t] by (auto split: if_splits)

text \<open>
  Claim C3, as amended. With the catalog of \<open>SimpleValidator.__init__\<close>, for every
  document: the standing flag (category \<open>missing_adgm_reference\<close>, severity \<open>high\<close>,
  message "Document does not reference ADGM or Abu Dhabi Global Market") is among the
  red flags if and only if neither \<open>adgm\<close> nor \<open>abu dhabi global market\<close> occurs in the
  lower-cased text. A flag of category \<open>missing_adgm_reference\<close> is emitted if and only
  if neither token occurs or the catalog's own rule of that category matches the
  lower-cased text (\<open>governing law\<close> with neither token after it on the same line), and
  every flag of that category has severity \<open>high\<close>.
\<close>

theorem regulator_reference_flag:
  "let low = lower (doc_text doc);
       fs = red_flags (validate_document SimpleValidator_init doc);
       neither = (\<not> str_contains ''adgm'' low \<and> \<not> str_contains ''abu dhabi global market'' low)
   in (standing_flag \<in> set fs \<longleftrightarrow> neither)
      \<and> flag_type standing_flag = ''missing_adgm_reference''
      \<and> severity standing_flag = ''high''
      \<and> (''missing_adgm_reference'' \<in> set (map flag_type fs)
           \<longleftrightarrow> neither \<or> re_search governing_law_rule low)
      \<and> (\<forall>f \<in> set fs. flag_type f = ''missing_adgm_reference'' \<longrightarrow> severity f = ''high'')"
proof -
  let ?low = "lower (doc_text doc)"
  let ?rules = "concat (map (rule_matches ?low) (red_flag_patterns SimpleValidator_init))"
  have std: "flag_type standing_flag = ''missing_adgm_reference''" "severity standing_flag = ''high''"
    by (simp_all add: standing_flag_def)
  have cat: "''missing_adgm_reference'' \<in> set (map flag_type ?rules)
      \<longleftrightarrow> re_search governing_law_rule ?low"
    by (rule init_category_iff)
  have high: "\<forall>f \<in> set ?rules. flag_type f = ''missing_adgm_reference'' \<longrightarrow> severity f = ''high''"
    using init_flags_high by blast
  show ?thesis
    unfolding Let_def
    using standing_flag_iff [of SimpleValidator_init doc] std cat high
    by (auto simp: red_flags_validate_document)
qed

theorem regulator_reference_flag_witness:
  "\<not> str_contains ''adgm'' (lower ''Disputes go to the Dubai Court under Federal Law.'')
   \<and> \<not> str_contains ''abu dhabi global market''
        (lower ''Disputes go to the Dubai Court under Federal Law.'')
   \<and> standing_flag \<in> set (red_flags (validate_document SimpleValidator_init
        \<lparr>file_name = Some ''lease.docx'',
         text_content = Some ''Disputes go to the Dubai Court under Federal Law.'',
         document_type = Some ''unknown''\<rparr>))
   \<and> flag_type standing_flag = ''missing_adgm_reference''
   \<and> severity standing_flag = ''high''"
proof -
  have "\<not> str_contains ''adgm'' (lower ''Disputes go to the Dubai Court under Federal Law.'')"
       "\<not> str_contains ''abu dhabi global market''
            (lower ''Disputes go to the Dubai Court under Federal Law.'')"
    by code_simp+
  then show ?thesis
    using regulator_reference_flag [of "\<lparr>file_name = Some ''lease.docx'',
         text_content = Some ''Disputes go to the Dubai Court under Federal Law.'',
         document_type = Some ''unknown''\<rparr>"]
    by (simp add: Let_def doc_text_def)
qed

text \<open>
  The claim as first stated fails: this text mentions ADGM, and the catalog's own rule
  still emits a flag of category \<open>missing_adgm_reference\<close>, because no token follows
  "governing law".
\<close>

theorem regulator_reference_flag_counterexample:
  "\<not> (''missing_adgm_reference''
         \<in> set (map flag_type (red_flags (validate_document SimpleValidator_init
              \<lparr>file_name = Some ''spa.docx'',
               text_content =
                 Some ''This agreement is made in ADGM. Governing law: the laws of England.'',
               document_type = Some ''unknown''\<rparr>)))
       \<longleftrightarrow>
       (\<not> str_contains ''adgm''
            (lower ''This agreement is made in ADGM. Governing law: the laws of England.'')
        \<and> \<not> str_contains ''abu dhabi global market''
            (lower ''This agreement is made in ADGM. Governing law: the laws of England.'')))"
  by code_simp

section \<open>Properties of the document classifier\<close>

lemma py_max_from_first_max:
  "\<exists>pre post. best # xs = pre @ py_max_from key best xs # post
     \<and> (\<forall>x \<in> set pre. key x < key (py_max_from key best xs))
     \<and> (\<forall>x \<in> set post. key x \<le> key (py_max_from key best xs))"
proof (induction xs arbitrary: best)
  case Nil
  show ?case by (intro exI [of _ "[]"]) simp
next
  case (Cons x xs)
  show ?case
  proof (cases "key best < key x")
    case True
    then have r: "py_max_from key best (x # xs) = py_max_from key x xs" by simp
    from Cons.IH [of x] obtain pre post where d: "x # xs = pre @ py_max_from key x xs # post"
      and lt: "\<forall>y \<in> set pre. key y < key (py_max_from key x xs)"
      and le: "\<forall>y \<in> set post. key y \<le> key (py_max_from key x xs)"
      by blast
    have "key x \<le> key (py_max_from key x xs)"
    proof (cases pre)
      case Nil
      with d have "py_max_from key x xs = x" by (metis append_Nil list.inject)
      then show ?thesis by simp
    next
      case (Cons p ps)
      with d have "x \<in> set pre" by (metis append_Cons list.inject list.set_intros(1))
      with lt show ?thesis by (simp add: less_imp_le)
    qed
    with True have "key best < key (py_max_from key x xs)" by simp
    with lt have "\<forall>y \<in> set (best # pre). key y < key (py_max_from key x xs)" by simp
    moreover from d have "best # x # xs = (best # pre) @ py_max_from key x xs # post" by simp
    ultimately show ?thesis unfolding r using le by blast
  next
    case False
    then have r: "py_max_from key best (x # xs) = py_max_from key best xs" by simp
    from Cons.IH [of best] obtain pre post where d: "best # xs = pre @ py_max_from key best xs # post"
      and lt: "\<forall>y \<in> set pre. key y < key (py_max_from key best xs)"
      and le: "\<forall>y \<in> set post. key y \<le> key (py_max_from key best xs)"
      by blast
    show ?thesis
    proof (cases pre)
      case Nil
      with d have b: "py_max_from key best xs = best" and p: "post = xs"
        by (metis append_Nil list.inject)+
      from le False b p have "\<forall>y \<in> set (x # xs). key y \<le> key (py_max_from key best xs)"
        by (simp add: not_less)
      moreover from b have "best # x # xs = [] @ py_max_from key best xs # (x # xs)" by simp
      moreover have "\<forall>y \<in> set []. key y < key (py_max_from key best xs)" by simp
      ultimately show ?thesis unfolding r by blast
    next
      case (Cons p ps)
      with d have p: "p = best" and xs: "xs = ps @ py_max_from key best xs # post"
        by (metis append_Cons list.inject)+
      from lt Cons p have bl: "key best < key (py_max_from key best xs)" by simp
      with False have "key x < key (py_max_from key best xs)" by (simp add: not_less)
      with lt bl Cons p have "\<forall>y \<in> set (best # x # ps). key y < key (py_max_from key best xs)"
        by simp
      moreover from xs have "best # x # xs = (best # x # ps) @ py_max_from key best xs # post"
        by simp
      ultimately show ?thesis unfolding r using le by blast
    qed
  qed
qed

lemma update_fresh: "k \<notin> fst ` set al \<Longrightarrow> AList.update k v al = al @ [(k, v)]"
  by (induction al) auto

lemma fold_score_step:
  "distinct (map fst ps) \<Longrightarrow> fst ` set ps \<inter> fst ` set acc = {} \<Longrightarrow>
   fold (score_step low) ps acc = acc @ filter (\<lambda>(t, s). 0 < s) (scored ps low)"
proof (induction ps arbitrary: acc)
  case Nil
  show ?case by (simp add: scored_def)
next
  case (Cons p ps)
  obtain t kws where p: "p = (t, kws)" by (cases p)
  show ?case
  proof (cases "0 < keyword_score kws low")
    case True
    from Cons.prems p have fresh: "t \<notin> fst ` set acc" by auto
    have "fst ` set ps \<inter> fst ` set (acc @ [(t, keyword_score kws low)]) = {}"
      using Cons.prems p by (auto simp: image_iff)
    with Cons.IH [of "acc @ [(t, keyword_score kws low)]"] Cons.prems True p fresh
    show ?thesis
      by (simp add: score_step_def update_fresh scored_def)
  next
    case False
    have "fst ` set ps \<inter> fst ` set acc = {}" using Cons.prems by auto
    with Cons.IH [of acc] Cons.prems False p show ?thesis
      by (simp add: score_step_def scored_def)
  qed
qed

lemma score_types_filter:
  "distinct (map fst ps) \<Longrightarrow> score_types ps low = filter (\<lambda>(t, s). 0 < s) (scored ps low)"
  using fold_score_step [of ps "[]" low] by (simp add: score_types_def)

lemma filter_eq_split:
  "filter Q ys = as @ b # cs \<Longrightarrow>
   \<exists>us vs. ys = us @ b # vs \<and> as = filter Q us \<and> cs = filter Q vs \<and> Q b"
proof (induction ys arbitrary: as)
  case Nil
  then show ?case by simp
next
  case (Cons y ys)
  show ?case
  proof (cases "Q y")
    case False
    with Cons.prems have "filter Q ys = as @ b # cs" by simp
    from Cons.IH [OF this] obtain us vs where
      "ys = us @ b # vs" "as = filter Q us" "cs = filter Q vs" "Q b" by blast
    with False have "y # ys = (y # us) @ b # vs \<and> as = filter Q (y # us) \<and> cs = filter Q vs \<and> Q b"
      by simp
    then show ?thesis by blast
  next
    case True
    show ?thesis
    proof (cases as)
      case Nil
      with Cons.prems True have "y # ys = [] @ b # ys \<and> as = filter Q [] \<and> cs = filter Q ys \<and> Q b"
        by simp
      then show ?thesis by blast
    next
      case (Cons a as')
      with Cons.prems True have a: "a = y" and "filter Q ys = as' @ b # cs" by simp_all
      from Cons.IH [OF this(2)] obtain us vs where
        "ys = us @ b # vs" "as' = filter Q us" "cs = filter Q vs" "Q b" by blast
      with True a Cons have
        "y # ys = (y # us) @ b # vs \<and> as = filter Q (y # us) \<and> cs = filter Q vs \<and> Q b"
        by simp
      then show ?thesis by blast
    qed
  qed
qed


lemma keyword_score_nonneg: "0 \<le> keyword_score kws low"
  by (simp add: keyword_score_def)

lemma scored_keys: "map fst (scored ps low) = map fst ps"
  by (induction ps) (auto simp: scored_def)

lemma score_types_empty_iff:
  assumes "distinct (map fst ps)"
  shows "score_types ps low = [] \<longleftrightarrow> (\<forall>(t, kws) \<in> set ps. keyword_score kws low = 0)"
proof -
  have "0 < keyword_score kws low \<longleftrightarrow> keyword_score kws low \<noteq> 0" for kws
    using keyword_score_nonneg [of kws low] by linarith
  then show ?thesis
    by (auto simp: score_types_filter [OF assms] filter_empty_conv scored_def)
qed

lemma score_types_first_max:
  assumes dist: "distinct (map fst ps)"
    and keys: "map fst (score_types ps low) = k # ks"
  shows "\<exists>pre kws post.
           ps = pre @ (py_max_from (map_of (score_types ps low)) k ks, kws) # post
           \<and> 0 < keyword_score kws low
           \<and> (\<forall>(t', kws') \<in> set pre. keyword_score kws' low < keyword_score kws low)
           \<and> (\<forall>(t', kws') \<in> set post. keyword_score kws' low \<le> keyword_score kws low)"
proof -
  let ?F = "score_types ps low"
  let ?pos = "\<lambda>(t :: string, s :: int). 0 < s"
  let ?r = "py_max_from (map_of ?F) k ks"
  have F: "?F = filter ?pos (scored ps low)"
    by (rule score_types_filter [OF dist])
  have dF: "distinct (map fst ?F)"
    unfolding F using dist by (simp add: distinct_map_filter scored_keys)
  from py_max_from_first_max [of k ks "map_of ?F"] obtain kpre kpost where
    kd: "k # ks = kpre @ ?r # kpost"
    and klt: "\<forall>x \<in> set kpre. map_of ?F x < map_of ?F ?r"
    and kle: "\<forall>x \<in> set kpost. map_of ?F x \<le> map_of ?F ?r"
    by blast
  from kd keys have "map fst ?F = kpre @ ?r # kpost" by simp
  then obtain Fa Fb where Fsplit: "?F = Fa @ Fb" and Fa: "map fst Fa = kpre"
    and Fb: "map fst Fb = ?r # kpost"
    by (auto simp: map_eq_append_conv)
  from Fb obtain s Fc where Fb': "Fb = (?r, s) # Fc" and Fc: "map fst Fc = kpost"
    by (auto simp: map_eq_Cons_conv)
  have Fd: "?F = Fa @ (?r, s) # Fc" using Fsplit Fb' by simp
  have look: "map_of ?F t = Some v" if "(t, v) \<in> set ?F" for t v
    using that dF by simp
  have rs: "map_of ?F ?r = Some s"
    by (rule look) (subst Fd, simp)
  have Fa_lt: "v < s" if "(t, v) \<in> set Fa" for t v
  proof -
    from that have "t \<in> set kpre" using Fa by force
    with klt rs have "map_of ?F t < Some s" by simp
    moreover from that have "map_of ?F t = Some v" by (intro look) (subst Fd, simp)
    ultimately show ?thesis by simp
  qed
  have Fc_le: "v \<le> s" if "(t, v) \<in> set Fc" for t v
  proof -
    from that have "t \<in> set kpost" using Fc by force
    with kle rs have "map_of ?F t \<le> Some s" by simp
    moreover from that have "map_of ?F t = Some v" by (intro look) (subst Fd, simp)
    ultimately show ?thesis by simp
  qed
  from Fd F have "filter ?pos (scored ps low) = Fa @ (?r, s) # Fc" by simp
  from filter_eq_split [OF this] obtain us vs where
    sc: "scored ps low = us @ (?r, s) # vs" and us: "Fa = filter ?pos us"
    and vs: "Fc = filter ?pos vs" and spos: "0 < s"
    by auto
  from sc obtain pre p post where ps: "ps = pre @ p # post"
    and pre: "map (\<lambda>(t, kws). (t, keyword_score kws low)) pre = us"
    and p: "(\<lambda>(t, kws). (t, keyword_score kws low)) p = (?r, s)"
    and post: "map (\<lambda>(t, kws). (t, keyword_score kws low)) post = vs"
    unfolding scored_def by (auto simp: map_eq_append_conv map_eq_Cons_conv)
  from p obtain kws where pk: "p = (?r, kws)" and ks: "keyword_score kws low = s"
    by (cases p) auto
  have pre_lt: "keyword_score kws' low < s" if "(t', kws') \<in> set pre" for t' kws'
  proof (cases "0 < keyword_score kws' low")
    case True
    from that pre have "(t', keyword_score kws' low) \<in> set us" by force
    with True us have "(t', keyword_score kws' low) \<in> set Fa" by simp
    then show ?thesis by (rule Fa_lt)
  next
    case False
    with spos show ?thesis by simp
  qed
  have post_le: "keyword_score kws' low \<le> s" if "(t', kws') \<in> set post" for t' kws'
  proof (cases "0 < keyword_score kws' low")
    case True
    from that post have "(t', keyword_score kws' low) \<in> set vs" by force
    with True vs have "(t', keyword_score kws' low) \<in> set Fc" by simp
    then show ?thesis by (rule Fc_le)
  next
    case False
    with spos show ?thesis by simp
  qed
  from ps pk ks spos pre_lt post_le show ?thesis by blast
qed


lemma str_contains_sublist: "str_contains needle s \<longleftrightarrow> sublist needle s"
  by (induction s) (simp_all add: sublist_Cons_right)

lemma keyword_score_count:
  "keyword_score kws low = int (length (filter (\<lambda>k. sublist k low) kws))"
  by (simp add: keyword_score_def str_contains_sublist)

lemma type_patterns_keys:
  "map fst type_patterns =
     [''articles_of_association'', ''board_resolution'', ''ubo_declaration'',
      ''employment_contract'', ''incorporation_form'']"
  by (simp add: type_patterns_def)

lemma type_patterns_distinct: "distinct (map fst type_patterns)"
  by (simp add: type_patterns_keys)

lemma identify_document_type_cases:
  "identify_document_type text =
     (case map fst (score_types type_patterns (lower text)) of
        [] \<Rightarrow> ''unknown''
      | k # ks \<Rightarrow> py_max_from (map_of (score_types type_patterns (lower text))) k ks)"
  by (simp add: identify_document_type_def Let_def)

text \<open>
  Claim C2. For every text, both copies of \<open>_identify_document_type\<close> score each catalog
  type by the number of its keywords that occur as substrings of the lower-cased text,
  leave out the types of score 0, and return \<open>unknown\<close> when no type scores above zero;
  otherwise they return a type of highest score, and among several types of highest
  score the one earliest in the catalog's declared order (articles_of_association,
  board_resolution, ubo_declaration, employment_contract, incorporation_form): every
  type before the returned one scores strictly less, every type after it at most as
  much.
\<close>

theorem classify_highest_score_first:
  "let low = lower text; result = identify_document_type text
   in (\<forall>kws. keyword_score kws low = int (length (filter (\<lambda>k. sublist k low) kws)))
      \<and> map fst type_patterns =
          [''articles_of_association'', ''board_resolution'', ''ubo_declaration'',
           ''employment_contract'', ''incorporation_form'']
      \<and> DocumentParser_identify_document_type text = result
      \<and> ((\<forall>(t, kws) \<in> set type_patterns. keyword_score kws low = 0)
           \<longrightarrow> result = ''unknown'')
      \<and> ((\<exists>(t, kws) \<in> set type_patterns. keyword_score kws low \<noteq> 0) \<longrightarrow>
           (\<exists>pre kws post.
              type_patterns = pre @ (result, kws) # post
              \<and> 0 < keyword_score kws low
              \<and> (\<forall>(t', kws') \<in> set pre. keyword_score kws' low < keyword_score kws low)
              \<and> (\<forall>(t', kws') \<in> set post. keyword_score kws' low \<le> keyword_score kws low)))"
proof -
  let ?low = "lower text"
  let ?F = "score_types type_patterns ?low"
  have same: "DocumentParser_identify_document_type text = identify_document_type text"
    by (simp add: DocumentParser_identify_document_type_def identify_document_type_def)
  have none: "identify_document_type text = ''unknown''"
    if "\<forall>(t, kws) \<in> set type_patterns. keyword_score kws ?low = 0"
  proof -
    from that have "?F = []"
      by (simp add: score_types_empty_iff [OF type_patterns_distinct])
    then show ?thesis by (simp add: identify_document_type_cases)
  qed
  have some: "\<exists>pre kws post.
              type_patterns = pre @ (identify_document_type text, kws) # post
              \<and> 0 < keyword_score kws ?low
              \<and> (\<forall>(t', kws') \<in> set pre. keyword_score kws' ?low < keyword_score kws ?low)
              \<and> (\<forall>(t', kws') \<in> set post. keyword_score kws' ?low \<le> keyword_score kws ?low)"
    if "\<exists>(t, kws) \<in> set type_patterns. keyword_score kws ?low \<noteq> 0"
  proof -
    from that have "?F \<noteq> []"
      by (auto simp: score_types_empty_iff [OF type_patterns_distinct])
    then obtain k ks where keys: "map fst ?F = k # ks"
      by (cases ?F) auto
    then have "identify_document_type text = py_max_from (map_of ?F) k ks"
      by (simp add: identify_document_type_cases)
    with score_types_first_max [OF type_patterns_distinct keys] show ?thesis
      by simp
  qed
  show ?thesis
    unfolding Let_def
    using same none some keyword_score_count type_patterns_keys by blast
qed

theorem classify_highest_score_first_witness:
  "identify_document_type ''Share capital is set by Board Resolution.'' = ''articles_of_association''
   \<and> DocumentParser_identify_document_type ''Share capital is set by Board Resolution.''
       = ''articles_of_association''
   \<and> keyword_score [''articles of association'', ''company regulations'', ''share capital'',
          ''director powers''] (lower ''Share capital is set by Board Resolution.'') = 1
   \<and> keyword_score [''board resolution'', ''resolved that'', ''directors resolve'',
          ''board of directors''] (lower ''Share capital is set by Board Resolution.'') = 1
   \<and> identify_document_type ''Lease of premises'' = ''unknown''"
proof -
  have "identify_document_type ''Share capital is set by Board Resolution.''
          = ''articles_of_association''"
    by code_simp
  moreover have
    "keyword_score [''articles of association'', ''company regulations'', ''share capital'',
          ''director powers''] (lower ''Share capital is set by Board Resolution.'') = 1"
    "keyword_score [''board resolution'', ''resolved that'', ''directors resolve'',
          ''board of directors''] (lower ''Share capital is set by Board Resolution.'') = 1"
    by code_simp+
  moreover have "\<forall>(t, kws) \<in> set type_patterns. keyword_score kws (lower ''Lease of premises'') = 0"
    by code_simp
  ultimately show ?thesis
    using classify_highest_score_first [of "''Share capital is set by Board Resolution.''"]
      classify_highest_score_first [of "''Lease of premises''"]
    by (simp add: Let_def)
qed

section \<open>Properties of the completeness evaluator\<close>

lemma set_observed_types:
  "set (observed_types documents) = get_document_type ` set documents - {''unknown''}"
  by (simp add: observed_types_def)

lemma observed_types_append:
  "set (observed_types (documents @ [d])) =
     set (observed_types documents) \<union> ({get_document_type d} - {''unknown''})"
  by (auto simp: set_observed_types)

lemma select_process_init:
  "select_process SimpleComplianceChecker_init types =
     Inr (if list_ex (\<lambda>dtype. dtype \<in> set signal_types) types
          then (''company_incorporation'', ''Company Incorporation'', incorporation_docs)
          else (''general_review'', ''General Document Review'', []))"
  by (simp add: select_process_def SimpleComplianceChecker_init_def getitem_def
        signal_types_def incorporation_docs_def)

lemma incorporation_docs_length: "length incorporation_docs = 5"
  and incorporation_docs_nonempty: "incorporation_docs \<noteq> []"
  by (simp_all add: incorporation_docs_def)

text \<open>
  The float model rounds as CPython does: \<open>3 / 5\<close> is the double nearest to 0.6, and
  \<open>7 / 25 * 100\<close> is 28.000000000000004, not 28. The six quotients of the incorporation
  profile are exact.
\<close>

lemma float_model_examples:
  "int_truediv 3 5 = 5404319552844595 / 9007199254740992"
  "float_mul (int_truediv 7 25) 100 = 7881299347898369 / 281474976710656"
  by code_simp+

lemma completion_values:
  "float_mul (int_truediv 0 5) 100 = 0"
  "float_mul (int_truediv 1 5) 100 = 20"
  "float_mul (int_truediv 2 5) 100 = 40"
  "float_mul (int_truediv 3 5) 100 = 60"
  "float_mul (int_truediv 4 5) 100 = 80"
  "float_mul (int_truediv 5 5) 100 = 100"
  by code_simp+

lemma completion_of_five:
  assumes "k \<le> 5"
  shows "float_mul (int_truediv (int k) 5) 100 = 20 * of_nat k"
proof -
  from assms have "k = 0 \<or> k = 1 \<or> k = 2 \<or> k = 3 \<or> k = 4 \<or> k = 5" by arith
  then show ?thesis
    using completion_values by auto
qed


lemma generate_init_total:
  "\<exists>r. generate_compliance_report SimpleComplianceChecker_init documents validations = Inr r"
  by (simp add: generate_compliance_report_def select_process_init Let_def)

lemma generate_init_fields:
  assumes "generate_compliance_report SimpleComplianceChecker_init documents validations = Inr r"
  defines "obs \<equiv> observed_types documents"
  defines "sig \<equiv> list_ex (\<lambda>dtype. dtype \<in> set signal_types) obs"
  shows "process_type r = (if sig then ''company_incorporation'' else ''general_review'')"
    and "required_documents (completeness r) = (if sig then 5 else 0)"
    and "present_documents (completeness r) =
           (if sig then filter (\<lambda>d. d \<in> set obs) incorporation_docs else obs)"
    and "missing_documents (completeness r) =
           (if sig then filter (\<lambda>d. d \<notin> set obs) incorporation_docs else [])"
    and "completion_percentage (completeness r) =
           (if sig then 20 * of_nat (length (filter (\<lambda>d. d \<in> set obs) incorporation_docs))
            else 100)"
proof -
  have k: "length (filter (\<lambda>d. d \<in> set obs) incorporation_docs) \<le> 5"
    using length_filter_le [of "\<lambda>d. d \<in> set obs" incorporation_docs]
    by (simp add: incorporation_docs_length)
  have c: "float_mul (int_truediv (int (length (filter (\<lambda>d. d \<in> set obs) incorporation_docs)))
              (int (length incorporation_docs))) 100
           = 20 * of_nat (length (filter (\<lambda>d. d \<in> set obs) incorporation_docs))"
    using completion_of_five [OF k] by (simp add: incorporation_docs_length)
  from assms(1) have r: "r =
     (let required = (if sig then incorporation_docs else []);
          present_docs = (if required \<noteq> [] then filter (\<lambda>doc. doc \<in> set obs) required else obs);
          missing_docs = (if required \<noteq> [] then filter (\<lambda>doc. doc \<notin> set obs) required else []);
          completion_pct =
            (if required \<noteq> []
             then float_mul (int_truediv (int (length present_docs)) (int (length required))) 100
             else 100);
          total = sum_list (map (\<lambda>v. int (length (red_flags v))) validations);
          high_issues = int (length (filter (\<lambda>rf. severity rf = ''high'')
                                        (concat (map red_flags validations))))
      in \<lparr>process_type = (if sig then ''company_incorporation'' else ''general_review''),
          process_name = (if sig then ''Company Incorporation'' else ''General Document Review''),
          overall_status = determine_status completion_pct high_issues missing_docs,
          completeness =
            \<lparr>documents_uploaded = int (length documents),
             required_documents = int (length required),
             present_documents = present_docs,
             missing_documents = missing_docs,
             completion_percentage = completion_pct\<rparr>,
          issues_summary = \<lparr>total_red_flags = total, high_severity = high_issues\<rparr>,
          recommendations =
            [''Review flagged issues and make necessary corrections'',
             ''Ensure all required documents are provided'',
             ''Verify ADGM compliance before submission'']\<rparr>)"
    unfolding generate_compliance_report_def select_process_init obs_def sig_def Let_def
    by (auto simp: incorporation_docs_nonempty)
  show "process_type r = (if sig then ''company_incorporation'' else ''general_review'')"
    unfolding r Let_def by simp
  show "required_documents (completeness r) = (if sig then 5 else 0)"
    unfolding r Let_def by (simp add: incorporation_docs_length)
  show "present_documents (completeness r) =
           (if sig then filter (\<lambda>d. d \<in> set obs) incorporation_docs else obs)"
    unfolding r Let_def by (simp add: incorporation_docs_nonempty)
  show "missing_documents (completeness r) =
           (if sig then filter (\<lambda>d. d \<notin> set obs) incorporation_docs else [])"
    unfolding r Let_def by (simp add: incorporation_docs_nonempty)
  show "completion_percentage (completeness r) =
           (if sig then 20 * of_nat (length (filter (\<lambda>d. d \<in> set obs) incorporation_docs))
            else 100)"
    unfolding r Let_def using c by (simp add: incorporation_docs_nonempty)
qed

lemma incorporation_docs_distinct: "distinct incorporation_docs"
  by (simp add: incorporation_docs_def)

lemma card_filter_distinct:
  assumes "distinct xs"
  shows "length (filter P xs) = card (set xs \<inter> {x. P x})"
proof -
  have "set (filter P xs) = set xs \<inter> {x. P x}" by auto
  moreover from assms have "length (filter P xs) = card (set (filter P xs))"
    by (metis distinct_card distinct_filter)
  ultimately show ?thesis by (simp only:)
qed

text \<open>
  Claim C4. With the requirements of \<open>SimpleComplianceChecker.__init__\<close>, for every batch:
  the observed types are the documents' types without \<open>unknown\<close>; when the selected
  requirement list \<open>R\<close> is non-empty, the present documents are \<open>R\<close> restricted to the
  observed types, the missing documents are \<open>R\<close> without the observed types, and the
  completion percentage is \<open>100 * |R \<inter> observed| / |R|\<close>; when \<open>R\<close> is empty, the present
  documents are the observed types, nothing is missing and the completion percentage is
  100.0. For the observed types articles_of_association and board_resolution the
  incorporation profile (5 required types) is selected, the completion percentage is
  40.0 and incorporation_form, ubo_declaration and register_members_directors are
  missing.
\<close>

theorem completeness_math:
  "\<exists>ptype pname R r.
      select_process SimpleComplianceChecker_init (observed_types documents)
        = Inr (ptype, pname, R)
    \<and> generate_compliance_report SimpleComplianceChecker_init documents validations = Inr r
    \<and> set (observed_types documents) = get_document_type ` set documents - {''unknown''}
    \<and> required_documents (completeness r) = int (length R)
    \<and> (R \<noteq> [] \<longrightarrow>
          present_documents (completeness r)
            = filter (\<lambda>d. d \<in> set (observed_types documents)) R
        \<and> set (present_documents (completeness r)) = set R \<inter> set (observed_types documents)
        \<and> missing_documents (completeness r)
            = filter (\<lambda>d. d \<notin> set (observed_types documents)) R
        \<and> set (missing_documents (completeness r)) = set R - set (observed_types documents)
        \<and> completion_percentage (completeness r)
            = 100 * of_nat (card (set R \<inter> set (observed_types documents)))
                / of_nat (card (set R)))
    \<and> (R = [] \<longrightarrow>
          set (present_documents (completeness r)) = set (observed_types documents)
        \<and> missing_documents (completeness r) = []
        \<and> completion_percentage (completeness r) = 100)
    \<and> (set (observed_types documents) = {''articles_of_association'', ''board_resolution''}
         \<longrightarrow>
          R = [''articles_of_association'', ''board_resolution'', ''incorporation_form'',
               ''ubo_declaration'', ''register_members_directors'']
        \<and> completion_percentage (completeness r) = 40
        \<and> missing_documents (completeness r)
            = [''incorporation_form'', ''ubo_declaration'', ''register_members_directors''])"
proof -
  let ?obs = "observed_types documents"
  let ?sig = "list_ex (\<lambda>dtype. dtype \<in> set signal_types) ?obs"
  obtain r where r: "generate_compliance_report SimpleComplianceChecker_init documents validations = Inr r"
    using generate_init_total by blast
  note f = generate_init_fields [OF r]
  show ?thesis
  proof (cases ?sig)
    case False
    then have sel: "select_process SimpleComplianceChecker_init ?obs
        = Inr (''general_review'', ''General Document Review'', [])"
      by (simp add: select_process_init)
    have no: "set ?obs \<noteq> {''articles_of_association'', ''board_resolution''}"
      using False by (auto simp: list_ex_iff signal_types_def)
    from False f no sel r show ?thesis
      by (simp add: set_observed_types)
  next
    case True
    then have sel: "select_process SimpleComplianceChecker_init ?obs
        = Inr (''company_incorporation'', ''Company Incorporation'', incorporation_docs)"
      by (simp add: select_process_init)
    have pres: "length (filter (\<lambda>d. d \<in> set ?obs) incorporation_docs)
        = card (set incorporation_docs \<inter> set ?obs)"
      using card_filter_distinct [OF incorporation_docs_distinct, of "\<lambda>d. d \<in> set ?obs"]
      by (simp add: Collect_mem_eq)
    have cardR: "card (set incorporation_docs) = 5"
      using distinct_card [OF incorporation_docs_distinct]
      by (simp add: incorporation_docs_length)
    have compl: "completion_percentage (completeness r)
        = 100 * of_nat (card (set incorporation_docs \<inter> set ?obs))
            / of_nat (card (set incorporation_docs))"
      using f(5) True pres cardR by simp
    have ex: "set ?obs = {''articles_of_association'', ''board_resolution''} \<longrightarrow>
        incorporation_docs = [''articles_of_association'', ''board_resolution'',
          ''incorporation_form'', ''ubo_declaration'', ''register_members_directors'']
        \<and> completion_percentage (completeness r) = 40
        \<and> missing_documents (completeness r)
            = [''incorporation_form'', ''ubo_declaration'', ''register_members_directors'']"
      using f(4,5) True by (simp add: incorporation_docs_def)
    have the_rest:
      "required_documents (completeness r) = int (length incorporation_docs)"
      "present_documents (completeness r) = filter (\<lambda>d. d \<in> set ?obs) incorporation_docs"
      "set (present_documents (completeness r)) = set incorporation_docs \<inter> set ?obs"
      "missing_documents (completeness r) = filter (\<lambda>d. d \<notin> set ?obs) incorporation_docs"
      "set (missing_documents (completeness r)) = set incorporation_docs - set ?obs"
      using f True by (auto simp: incorporation_docs_length)
    have obs: "set ?obs = get_document_type ` set documents - {''unknown''}"
      by (rule set_observed_types)
    from sel r the_rest compl ex incorporation_docs_nonempty obs
    show ?thesis by blast
  qed
qed


theorem completeness_math_witness:
  "set (observed_types
         [\<lparr>file_name = Some ''aoa.docx'', text_content = Some ''Share capital'',
           document_type = Some ''articles_of_association''\<rparr>,
          \<lparr>file_name = Some ''br.docx'', text_content = Some ''Resolved that'',
           document_type = Some ''board_resolution''\<rparr>])
     = {''articles_of_association'', ''board_resolution''}
   \<and> (\<exists>r. generate_compliance_report SimpleComplianceChecker_init
         [\<lparr>file_name = Some ''aoa.docx'', text_content = Some ''Share capital'',
           document_type = Some ''articles_of_association''\<rparr>,
          \<lparr>file_name = Some ''br.docx'', text_content = Some ''Resolved that'',
           document_type = Some ''board_resolution''\<rparr>] [] = Inr r
        \<and> completion_percentage (completeness r) = 40
        \<and> missing_documents (completeness r)
            = [''incorporation_form'', ''ubo_declaration'', ''register_members_directors''])"
proof -
  let ?docs = "[\<lparr>file_name = Some ''aoa.docx'', text_content = Some ''Share capital'',
           document_type = Some ''articles_of_association''\<rparr>,
          \<lparr>file_name = Some ''br.docx'', text_content = Some ''Resolved that'',
           document_type = Some ''board_resolution''\<rparr>]"
  have obs: "set (observed_types ?docs) = {''articles_of_association'', ''board_resolution''}"
    by (simp add: observed_types_def get_document_type_def)
  with completeness_math [of ?docs "[]"] show ?thesis by blast
qed

text \<open>
  Claim C9. For every checker and batch for which a profile with a non-empty requirement
  list \<open>R\<close> is selected, the report's missing documents are the unobserved members of
  \<open>R\<close> in the declared order of \<open>R\<close>, so the three entries the status message shows are
  the first three of them in that order.
\<close>

theorem missing_in_declared_order:
  assumes "select_process self (observed_types documents) = Inr (ptype, pname, R)"
    and "R \<noteq> []"
  shows "\<exists>r. generate_compliance_report self documents validations = Inr r
           \<and> missing_documents (completeness r)
               = filter (\<lambda>d. d \<notin> set (observed_types documents)) R
           \<and> subseq (missing_documents (completeness r)) R
           \<and> shown_missing r = take 3 (filter (\<lambda>d. d \<notin> set (observed_types documents)) R)"
  using assms
  by (simp add: generate_compliance_report_def Let_def shown_missing_def subseq_filter_left)

theorem missing_in_declared_order_witness:
  "select_process SimpleComplianceChecker_init
      (observed_types [\<lparr>file_name = Some ''ubo.docx'', text_content = Some ''UBO declaration'',
                        document_type = Some ''ubo_declaration''\<rparr>])
     = Inr (''company_incorporation'', ''Company Incorporation'',
            [''articles_of_association'', ''board_resolution'', ''incorporation_form'',
             ''ubo_declaration'', ''register_members_directors''])
   \<and> (\<exists>r. generate_compliance_report SimpleComplianceChecker_init
             [\<lparr>file_name = Some ''ubo.docx'', text_content = Some ''UBO declaration'',
               document_type = Some ''ubo_declaration''\<rparr>] [] = Inr r
          \<and> missing_documents (completeness r)
              = [''articles_of_association'', ''board_resolution'', ''incorporation_form'',
                 ''register_members_directors'']
          \<and> shown_missing r
              = [''articles_of_association'', ''board_resolution'', ''incorporation_form''])"
proof -
  let ?docs = "[\<lparr>file_name = Some ''ubo.docx'', text_content = Some ''UBO declaration'',
                        document_type = Some ''ubo_declaration''\<rparr>]"
  let ?R = "[''articles_of_association'', ''board_resolution'', ''incorporation_form'',
             ''ubo_declaration'', ''register_members_directors'']"
  have obs: "observed_types ?docs = [''ubo_declaration'']"
    by (simp add: observed_types_def get_document_type_def)
  have sel: "select_process SimpleComplianceChecker_init (observed_types ?docs)
     = Inr (''company_incorporation'', ''Company Incorporation'', ?R)"
    by (simp add: obs select_process_def SimpleComplianceChecker_init_def getitem_def)
  have ne: "?R \<noteq> []" by simp
  from missing_in_declared_order [OF sel ne, of "[]"] sel show ?thesis
    by (auto simp: obs)
qed

lemma identify_document_type_range:
  "identify_document_type text \<in> insert ''unknown'' (fst ` set type_patterns)"
proof (cases "map fst (score_types type_patterns (lower text))")
  case Nil
  then show ?thesis by (simp add: identify_document_type_cases)
next
  case (Cons k ks)
  from score_types_first_max [OF type_patterns_distinct Cons] obtain pre kws post where
    "type_patterns
       = pre @ (py_max_from (map_of (score_types type_patterns (lower text))) k ks, kws) # post"
    by blast
  then have "py_max_from (map_of (score_types type_patterns (lower text))) k ks
      \<in> fst ` set type_patterns"
    by (metis fst_conv image_eqI in_set_conv_decomp)
  with Cons show ?thesis by (simp add: identify_document_type_cases)
qed

lemma identify_never_register:
  "identify_document_type text \<noteq> ''register_members_directors''"
proof -
  have "''register_members_directors'' \<notin> insert ''unknown'' (set (map fst type_patterns))"
    unfolding type_patterns_keys by simp
  then have "''register_members_directors'' \<notin> insert ''unknown'' (fst ` set type_patterns)"
    by simp
  with identify_document_type_range [of "text"] show ?thesis by metis
qed

lemma register_required: "''register_members_directors'' \<in> set incorporation_docs"
  by (simp add: incorporation_docs_def)

lemma determine_status_missing:
  "missing \<noteq> [] \<Longrightarrow> determine_status c h missing \<noteq> ''ready_for_submission''"
  by (simp add: determine_status_def)

text \<open>
  Claim C10. When every document's type was produced by the classifier,
  \<open>register_members_directors\<close> (which has no entry in the classifier's catalog) is never
  observed; so whenever the incorporation process is selected it is among the missing
  documents, the completion percentage is at most 80.0 and the overall status is not
  \<open>ready_for_submission\<close>.
\<close>

theorem register_always_missing:
  assumes "\<forall>d \<in> set documents. \<exists>text. document_type d = Some (identify_document_type text)"
  shows "\<exists>r. generate_compliance_report SimpleComplianceChecker_init documents validations = Inr r
           \<and> ''register_members_directors'' \<notin> fst ` set type_patterns
           \<and> ''register_members_directors'' \<notin> set (observed_types documents)
           \<and> (process_type r = ''company_incorporation'' \<longrightarrow>
                ''register_members_directors'' \<in> set (missing_documents (completeness r))
                \<and> completion_percentage (completeness r) \<le> 80
                \<and> overall_status r \<noteq> ''ready_for_submission'')"
proof -
  let ?reg = "''register_members_directors''"
  let ?obs = "observed_types documents"
  obtain r where r: "generate_compliance_report SimpleComplianceChecker_init documents validations = Inr r"
    using generate_init_total by blast
  note f = generate_init_fields [OF r]
  have cat: "?reg \<notin> fst ` set type_patterns"
    using type_patterns_keys by (simp add: type_patterns_def)
  have unobserved: "?reg \<notin> set ?obs"
  proof
    assume "?reg \<in> set ?obs"
    then obtain d where d: "d \<in> set documents" and t: "get_document_type d = ?reg"
      by (auto simp: set_observed_types)
    from assms d obtain content where "document_type d = Some (identify_document_type content)"
      by blast
    with t have "identify_document_type content = ?reg"
      by (simp add: get_document_type_def)
    with identify_never_register show False by blast
  qed
  have main: "?reg \<in> set (missing_documents (completeness r))
      \<and> completion_percentage (completeness r) \<le> 80
      \<and> overall_status r \<noteq> ''ready_for_submission''"
    if p: "process_type r = ''company_incorporation''"
  proof -
    from p f(1) have sig: "list_ex (\<lambda>dtype. dtype \<in> set signal_types) ?obs"
      by (simp split: if_splits)
    from sig f(4) unobserved register_required
    have miss: "?reg \<in> set (missing_documents (completeness r))" by simp
    have "length (filter (\<lambda>d. d \<in> set ?obs) incorporation_docs) < length incorporation_docs"
      using unobserved register_required by (intro length_filter_less) auto
    then have "length (filter (\<lambda>d. d \<in> set ?obs) incorporation_docs) \<le> 4"
      by (simp add: incorporation_docs_length)
    then have "(of_nat (length (filter (\<lambda>d. d \<in> set ?obs) incorporation_docs)) :: rat) \<le> 4"
      by (metis of_nat_le_iff of_nat_numeral)
    with sig f(5) have c: "completion_percentage (completeness r) \<le> 80" by simp
    from miss have "missing_documents (completeness r) \<noteq> []" by auto
    then have "overall_status r \<noteq> ''ready_for_submission''"
      unfolding generate_compliance_report_status [OF r] by (rule determine_status_missing)
    with miss c show ?thesis by simp
  qed
  from r cat unobserved main show ?thesis by blast
qed

theorem register_always_missing_witness:
  "document_type \<lparr>file_name = Some ''aoa.docx'',
                   text_content = Some ''Share capital is set by Board Resolution.'',
                   document_type =
                     Some (identify_document_type ''Share capital is set by Board Resolution.'')\<rparr>
     = Some (identify_document_type ''Share capital is set by Board Resolution.'')
   \<and> (\<exists>r. generate_compliance_report SimpleComplianceChecker_init
          [\<lparr>file_name = Some ''aoa.docx'',
            text_content = Some ''Share capital is set by Board Resolution.'',
            document_type =
              Some (identify_document_type ''Share capital is set by Board Resolution.'')\<rparr>] []
          = Inr r
        \<and> process_type r = ''company_incorporation''
        \<and> ''register_members_directors'' \<in> set (missing_documents (completeness r))
        \<and> completion_percentage (completeness r) \<le> 80
        \<and> overall_status r \<noteq> ''ready_for_submission'')"
proof -
  let ?t = "''Share capital is set by Board Resolution.''"
  let ?d = "\<lparr>file_name = Some ''aoa.docx'', text_content = Some ?t,
             document_type = Some (identify_document_type ?t)\<rparr>"
  have h: "\<forall>d \<in> set [?d]. \<exists>text. document_type d = Some (identify_document_type text)"
    by auto
  have e: "identify_document_type ?t = ''articles_of_association''" by code_simp
  from register_always_missing [OF h, of "[]"] obtain r where
    r: "generate_compliance_report SimpleComplianceChecker_init [?d] [] = Inr r"
    and imp: "process_type r = ''company_incorporation'' \<longrightarrow>
                ''register_members_directors'' \<in> set (missing_documents (completeness r))
                \<and> completion_percentage (completeness r) \<le> 80
                \<and> overall_status r \<noteq> ''ready_for_submission''"
    by blast
  have "process_type r = ''company_incorporation''"
    using generate_init_fields(1) [OF r]
    by (simp add: observed_types_def get_document_type_def e signal_types_def)
  with r imp show ?thesis by auto
qed

lemma length_filter_mono:
  "(\<And>x. x \<in> set xs \<Longrightarrow> P x \<Longrightarrow> Q x) \<Longrightarrow> length (filter P xs) \<le> length (filter Q xs)"
  by (induction xs) auto

lemma length_filter_strict:
  assumes "\<And>x. x \<in> set xs \<Longrightarrow> Q x \<Longrightarrow> P x" and "t \<in> set xs" and "P t" and "\<not> Q t"
  shows "length (filter Q xs) < length (filter P xs)"
  using assms
proof (induction xs)
  case Nil
  then show ?case by simp
next
  case (Cons x xs)
  have mono: "length (filter Q xs) \<le> length (filter P xs)"
    using Cons.prems(1) by (intro length_filter_mono) auto
  show ?case
  proof (cases "x = t")
    case True
    with Cons.prems mono show ?thesis by simp
  next
    case False
    with Cons.prems have "t \<in> set xs" by simp
    with Cons.IH Cons.prems have "length (filter Q xs) < length (filter P xs)" by simp
    with Cons.prems(1) [of x] show ?thesis by auto
  qed
qed

lemma present_plus_missing:
  "length (filter (\<lambda>d. d \<in> S) xs) + length (filter (\<lambda>d. d \<notin> S) xs) = length xs"
  by (rule sum_length_filter_compl)

lemma signal_mono:
  "set obs \<subseteq> set obs' \<Longrightarrow> list_ex P obs \<Longrightarrow> list_ex P obs'"
  by (auto simp: list_ex_iff)

lemma signal_cong:
  "set obs = set obs' \<Longrightarrow> list_ex P obs = list_ex P obs'"
  by (auto simp: list_ex_iff)

text \<open>
  Claim C7, as amended. Adding to a batch a document whose type is in the report's
  missing list makes the missing list strictly shorter and the completion percentage
  strictly greater. Adding a document whose type is already observed changes neither.
  Adding any document does not lower the completion percentage as long as the selected
  process stays the same.
\<close>

theorem completeness_monotone:
  "\<exists>r r'. generate_compliance_report SimpleComplianceChecker_init documents validations = Inr r
     \<and> generate_compliance_report SimpleComplianceChecker_init (documents @ [d]) validations'
         = Inr r'
     \<and> (get_document_type d \<in> set (missing_documents (completeness r)) \<longrightarrow>
           length (missing_documents (completeness r'))
             < length (missing_documents (completeness r))
           \<and> completion_percentage (completeness r)
               < completion_percentage (completeness r'))
     \<and> (get_document_type d \<in> set (observed_types documents) \<longrightarrow>
           completion_percentage (completeness r') = completion_percentage (completeness r)
           \<and> missing_documents (completeness r') = missing_documents (completeness r))
     \<and> (process_type r' = process_type r \<longrightarrow>
           completion_percentage (completeness r)
             \<le> completion_percentage (completeness r'))"
proof -
  let ?obs = "observed_types documents"
  let ?obs' = "observed_types (documents @ [d])"
  let ?t = "get_document_type d"
  let ?sig = "list_ex (\<lambda>dtype. dtype \<in> set signal_types) ?obs"
  let ?sig' = "list_ex (\<lambda>dtype. dtype \<in> set signal_types) ?obs'"
  let ?k = "length (filter (\<lambda>d. d \<in> set ?obs) incorporation_docs)"
  let ?k' = "length (filter (\<lambda>d. d \<in> set ?obs') incorporation_docs)"
  let ?m = "length (filter (\<lambda>d. d \<notin> set ?obs) incorporation_docs)"
  let ?m' = "length (filter (\<lambda>d. d \<notin> set ?obs') incorporation_docs)"
  obtain r where r: "generate_compliance_report SimpleComplianceChecker_init documents validations = Inr r"
    using generate_init_total by blast
  obtain r' where r': "generate_compliance_report SimpleComplianceChecker_init (documents @ [d]) validations' = Inr r'"
    using generate_init_total by blast
  note f = generate_init_fields [OF r]
  note f' = generate_init_fields [OF r']
  have obs': "set ?obs' = set ?obs \<union> ({?t} - {''unknown''})"
    by (rule observed_types_append)
  then have sub: "set ?obs \<subseteq> set ?obs'" by auto
  have km: "?k + ?m = 5" "?k' + ?m' = 5"
    using present_plus_missing [of "set ?obs" incorporation_docs]
      present_plus_missing [of "set ?obs'" incorporation_docs]
    by (simp_all add: incorporation_docs_length)
  have a: "length (missing_documents (completeness r'))
             < length (missing_documents (completeness r))
           \<and> completion_percentage (completeness r)
               < completion_percentage (completeness r')"
    if t: "?t \<in> set (missing_documents (completeness r))"
  proof -
    from t f(4) have sig: ?sig by (auto split: if_splits)
    with t f(4) have tR: "?t \<in> set incorporation_docs" and tn: "?t \<notin> set ?obs" by auto
    from tR have "?t \<noteq> ''unknown''" by (auto simp: incorporation_docs_def)
    with obs' have t': "?t \<in> set ?obs'" by simp
    from sig sub have sig': ?sig' by (rule signal_mono [rotated])
    have "?m' < ?m"
      using sub tR tn t'
      by (intro length_filter_strict [where t = ?t]) auto
    moreover from this km have "?k < ?k'" by linarith
    then have "(of_nat ?k :: rat) < of_nat ?k'" by (simp only: of_nat_less_iff)
    ultimately show ?thesis
      using f(4,5) f'(4,5) sig sig' by simp
  qed
  have b: "completion_percentage (completeness r') = completion_percentage (completeness r)
           \<and> missing_documents (completeness r') = missing_documents (completeness r)"
    if t: "?t \<in> set ?obs"
  proof -
    from t obs' have eq: "set ?obs' = set ?obs" by auto
    then have "?sig' = ?sig" by (rule signal_cong)
    with eq f(4,5) f'(4,5) show ?thesis by simp
  qed
  have c: "completion_percentage (completeness r) \<le> completion_percentage (completeness r')"
    if p: "process_type r' = process_type r"
  proof -
    from p f(1) f'(1) have s: "?sig' = ?sig" by (auto split: if_splits)
    have "?k \<le> ?k'" using sub by (intro length_filter_mono) auto
    then have "(of_nat ?k :: rat) \<le> of_nat ?k'" by (simp only: of_nat_le_iff)
    with s f(5) f'(5) show ?thesis by simp
  qed
  from r r' a b c show ?thesis by blast
qed

theorem completeness_monotone_witness:
  "\<exists>r r'. generate_compliance_report SimpleComplianceChecker_init
       [\<lparr>file_name = Some ''ubo.docx'', text_content = Some ''UBO declaration'',
         document_type = Some ''ubo_declaration''\<rparr>] [] = Inr r
     \<and> generate_compliance_report SimpleComplianceChecker_init
       ([\<lparr>file_name = Some ''ubo.docx'', text_content = Some ''UBO declaration'',
          document_type = Some ''ubo_declaration''\<rparr>]
        @ [\<lparr>file_name = Some ''br.docx'', text_content = Some ''Board resolution'',
            document_type = Some ''board_resolution''\<rparr>]) [] = Inr r'
     \<and> get_document_type \<lparr>file_name = Some ''br.docx'', text_content = Some ''Board resolution'',
            document_type = Some ''board_resolution''\<rparr>
          \<in> set (missing_documents (completeness r))
     \<and> length (missing_documents (completeness r'))
          < length (missing_documents (completeness r))
     \<and> completion_percentage (completeness r) < completion_percentage (completeness r')"
proof -
  let ?u = "\<lparr>file_name = Some ''ubo.docx'', text_content = Some ''UBO declaration'',
         document_type = Some ''ubo_declaration''\<rparr>"
  let ?b = "\<lparr>file_name = Some ''br.docx'', text_content = Some ''Board resolution'',
            document_type = Some ''board_resolution''\<rparr>"
  from completeness_monotone [of "[?u]" "[]" ?b "[]"] obtain r r' where
    r: "generate_compliance_report SimpleComplianceChecker_init [?u] [] = Inr r"
    and r': "generate_compliance_report SimpleComplianceChecker_init ([?u] @ [?b]) [] = Inr r'"
    and imp: "get_document_type ?b \<in> set (missing_documents (completeness r)) \<longrightarrow>
           length (missing_documents (completeness r'))
             < length (missing_documents (completeness r))
           \<and> completion_percentage (completeness r)
               < completion_percentage (completeness r')"
    by blast
  have "get_document_type ?b \<in> set (missing_documents (completeness r))"
    using generate_init_fields(4) [OF r]
    by (simp add: observed_types_def get_document_type_def signal_types_def
          incorporation_docs_def)
  with r r' imp show ?thesis by blast
qed

text \<open>
  The claim as first stated also says that the completion percentage never decreases
  when a document is added. It does: the empty batch is a general review at 100.0, and
  adding the first document of a signal type selects the incorporation profile, at 20.0.
\<close>

theorem completeness_monotone_counterexample:
  "generate_compliance_report SimpleComplianceChecker_init [] []
     = Inr \<lparr>process_type = ''general_review'',
            process_name = ''General Document Review'',
            overall_status = ''ready_for_submission'',
            completeness =
              \<lparr>documents_uploaded = 0, required_documents = 0, present_documents = [],
               missing_documents = [], completion_percentage = 100\<rparr>,
            issues_summary = \<lparr>total_red_flags = 0, high_severity = 0\<rparr>,
            recommendations =
              [''Review flagged issues and make necessary corrections'',
               ''Ensure all required documents are provided'',
               ''Verify ADGM compliance before submission'']\<rparr>
   \<and> generate_compliance_report SimpleComplianceChecker_init
       ([] @ [\<lparr>file_name = Some ''aoa.docx'',
                text_content = Some ''Articles of Association of an ADGM company'',
                document_type = Some ''articles_of_association''\<rparr>])
       [\<lparr>document_name = ''aoa.docx'', validated_type = ''articles_of_association'',
         red_flags = [], validation_status = ''compliant''\<rparr>]
     = Inr \<lparr>process_type = ''company_incorporation'',
            process_name = ''Company Incorporation'',
            overall_status = ''incomplete'',
            completeness =
              \<lparr>documents_uploaded = 1, required_documents = 5,
               present_documents = [''articles_of_association''],
               missing_documents =
                 [''board_resolution'', ''incorporation_form'', ''ubo_declaration'',
                  ''register_members_directors''],
               completion_percentage = 20\<rparr>,
            issues_summary = \<lparr>total_red_flags = 0, high_severity = 0\<rparr>,
            recommendations =
              [''Review flagged issues and make necessary corrections'',
               ''Ensure all required documents are provided'',
               ''Verify ADGM compliance before submission'']\<rparr>
   \<and> \<not> (100 :: rat) \<le> 20"
  by code_simp

text \<open>
  Claim C8. On the empty batch with no validations \<open>generate_compliance_report\<close> does not
  fail: it returns the general-review report with an empty requirement list, no
  uploaded documents, completion percentage 100.0, no red flags and overall status
  \<open>ready_for_submission\<close>.
\<close>

theorem empty_batch_report:
  "generate_compliance_report SimpleComplianceChecker_init [] [] =
     Inr \<lparr>process_type = ''general_review'',
          process_name = ''General Document Review'',
          overall_status = ''ready_for_submission'',
          completeness =
            \<lparr>documents_uploaded = 0, required_documents = 0, present_documents = [],
             missing_documents = [], completion_percentage = 100\<rparr>,
          issues_summary = \<lparr>total_red_flags = 0, high_severity = 0\<rparr>,
          recommendations =
            [''Review flagged issues and make necessary corrections'',
             ''Ensure all required documents are provided'',
             ''Verify ADGM compliance before submission'']\<rparr>"
  by (simp add: generate_compliance_report_def select_process_def observed_types_def
        determine_status_def Let_def)

end
